theory Spec2Isabelle
  imports Main "HOL-Library.Sublist"
begin

section \<open>Python strings and lists\<close>

text \<open>
  The script uses four operations of Python's \<^verbatim>\<open>str\<close> and \<^verbatim>\<open>list\<close>:
  \<^verbatim>\<open>s.rsplit(sep, 1)\<close>, indexing with \<^verbatim>\<open>[0]\<close> and \<^verbatim>\<open>[1]\<close>, the substring test
  \<^verbatim>\<open>key in s\<close> and \<^verbatim>\<open>s.replace(old, new)\<close>. Indexing past the end raises
  \<^verbatim>\<open>IndexError\<close>; calling a method on \<^verbatim>\<open>None\<close> raises \<^verbatim>\<open>AttributeError\<close>.
\<close>

datatype py_error = IndexError | AttributeError

text \<open>\<^verbatim>\<open>s.rsplit(sep, 1)\<close> for a one-character separator: at most one split, at the
  last occurrence of the separator; a string without the separator comes back whole.\<close>

definition rsplit1 :: "char \<Rightarrow> string \<Rightarrow> string list" where
  "rsplit1 sep s =
     (let tail = rev (takeWhile (\<lambda>c. c \<noteq> sep) (rev s))
      in if sep \<in> set s then [take (length s - length tail - 1) s, tail] else [s])"

text \<open>\<^verbatim>\<open>xs[0]\<close> and \<^verbatim>\<open>xs[1]\<close>.\<close>

fun item0 :: "'a list \<Rightarrow> py_error + 'a" where
  "item0 (x # xs) = Inr x"
| "item0 [] = Inl IndexError"

fun item1 :: "'a list \<Rightarrow> py_error + 'a" where
  "item1 (x # y # xs) = Inr y"
| "item1 xs = Inl IndexError"

text \<open>\<^verbatim>\<open>key in s\<close> on strings is the contiguous-substring test, \<^const>\<open>sublist\<close>.\<close>

definition contains :: "string \<Rightarrow> string \<Rightarrow> bool" where
  "contains key s = sublist key s"

text \<open>\<^verbatim>\<open>s.replace(old, new)\<close>: scanning from the left, every occurrence of \<open>old\<close> that
  does not overlap an earlier one is replaced; an empty \<open>old\<close> matches before every
  character and at the end.\<close>

function replace :: "string \<Rightarrow> string \<Rightarrow> string \<Rightarrow> string" where
  "replace old new [] = (if old = [] then new else [])"
| "replace old new (c # cs) =
     (if old = [] then new @ c # replace old new cs
      else if prefix old (c # cs) then new @ replace old new (drop (length old) (c # cs))
      else c # replace old new cs)"
  by pat_completeness auto
termination
  by (relation "measure (\<lambda>(old, new, s). length s)") auto

section \<open>The host editor\<close>

text \<open>
  Modelled from the spec: the host editor's scripting API (the module \<^verbatim>\<open>unreal\<close>), which
  is not part of the repository. The script only requests the creation and mutation of the
  host's objects through it, so the host is the part of its state the script reads (the
  asset database and the current selection), a supply of fresh graph-node identities, and
  the list of the requests that change the host, in the order they were made. Requests of
  the host are taken not to fail.
\<close>

datatype material_property =
  MP_BASE_COLOR | MP_OPACITY | MP_AMBIENT_OCCLUSION | MP_NORMAL
  | MP_METALLIC | MP_ROUGHNESS | MP_SPECULAR | MP_EMISSIVE_COLOR

datatype blend_mode = BLEND_TRANSLUCENT

datatype sampler_type = SAMPLERTYPE_MASKS | SAMPLERTYPE_GRAYSCALE | SAMPLERTYPE_NORMAL

datatype expression_class = MaterialExpressionTextureSample | MaterialExpressionMultiply

datatype asset_class = Material | Texture | OtherAsset

record asset =
  asset_class :: asset_class
  path_name :: string

text \<open>A Python reference to a host object: \<open>None\<close> is Python's \<^verbatim>\<open>None\<close>.\<close>

type_synonym ref = "asset option"

type_synonym node = nat

datatype prop_value = BlendModeV blend_mode | SamplerTypeV sampler_type | IntV int

datatype host_call =
    CreateAsset string string asset_class
  | CreateMaterialExpression ref expression_class int int node
  | SetTexture node ref
  | ConnectMaterialProperty node string material_property
  | ConnectMaterialExpressions node string node string
  | SetEditorPropertyOfNode node string prop_value
  | SetEditorPropertyOfMaterial ref string prop_value
  | RecompileMaterial ref
  | SaveAsset string bool
  | OpenEditorForAssets "ref list"

record host =
  assets :: "string \<rightharpoonup> asset"
  selected :: "asset list"
  next_node :: node
  calls :: "host_call list"

definition request :: "host_call \<Rightarrow> host \<Rightarrow> host" where
  "request c h = h\<lparr>calls := calls h @ [c]\<rparr>"

text \<open>Modelled from the spec: the host's \<^verbatim>\<open>unreal.EditorAssetLibrary.does_asset_exist\<close>
  and \<^verbatim>\<open>unreal.load_asset\<close>, which read the asset database; \<^verbatim>\<open>load_asset\<close> returns
  \<^verbatim>\<open>None\<close> where there is no asset.\<close>

definition does_asset_exist :: "string \<Rightarrow> host \<Rightarrow> bool" where
  "does_asset_exist p h = (assets h p \<noteq> None)"

definition load_asset :: "string \<Rightarrow> host \<Rightarrow> ref" where
  "load_asset p h = assets h p"

text \<open>Modelled from the spec: the host's \<^verbatim>\<open>asset_tools.create_asset(name, path, cls,
  factory)\<close>, which stores a new asset of the class under \<open>path/name\<close> and returns it.\<close>

definition create_asset :: "string \<Rightarrow> string \<Rightarrow> asset_class \<Rightarrow> host \<Rightarrow> ref \<times> host" where
  "create_asset name path cls h =
     (let a = \<lparr>asset_class = cls, path_name = path @ ''/'' @ name\<rparr>
      in (Some a, request (CreateAsset name path cls) (h\<lparr>assets := (assets h)(path_name a \<mapsto> a)\<rparr>)))"

text \<open>Modelled from the spec: the host's
  \<^verbatim>\<open>unreal.MaterialEditingLibrary.create_material_expression\<close>, which adds a node of the
  class to the material's graph at the position and returns the new node.\<close>

definition create_material_expression ::
    "ref \<Rightarrow> expression_class \<Rightarrow> int \<Rightarrow> int \<Rightarrow> host \<Rightarrow> node \<times> host" where
  "create_material_expression material cls x y h =
     (next_node h,
      request (CreateMaterialExpression material cls x y (next_node h))
        (h\<lparr>next_node := Suc (next_node h)\<rparr>))"

text \<open>Modelled from the spec: the host's \<^verbatim>\<open>obj.get_path_name()\<close>, the path under which
  the asset is stored; on \<^verbatim>\<open>None\<close> Python raises \<^verbatim>\<open>AttributeError\<close>.\<close>

fun get_path_name :: "ref \<Rightarrow> py_error + string" where
  "get_path_name (Some a) = Inr (path_name a)"
| "get_path_name None = Inl AttributeError"

text \<open>Modelled from the spec: the host's \<^verbatim>\<open>material.set_editor_property(property,
  value)\<close>, a method of the material object; on \<^verbatim>\<open>None\<close> Python raises
  \<^verbatim>\<open>AttributeError\<close> and nothing is requested.\<close>

fun set_editor_property :: "ref \<Rightarrow> string \<Rightarrow> prop_value \<Rightarrow> host \<Rightarrow> (py_error + unit) \<times> host" where
  "set_editor_property (Some a) property v h =
     (Inr (), request (SetEditorPropertyOfMaterial (Some a) property v) h)"
| "set_editor_property None property v h = (Inl AttributeError, h)"

text \<open>\<^verbatim>\<open>isinstance(asset, unreal.Texture)\<close>, read off the class of the asset.\<close>

definition is_texture :: "asset \<Rightarrow> bool" where
  "is_texture a = (asset_class a = Texture)"

section \<open>Actions\<close>

text \<open>The classes \<^verbatim>\<open>CreateConnection\<close>, \<^verbatim>\<open>CreateConnectionScaled\<close>, \<^verbatim>\<open>SetProperty\<close>
  and \<^verbatim>\<open>SetSamplerType\<close> with the fields their constructors store.\<close>

datatype action =
    CreateConnection string material_property
  | CreateConnectionScaled string material_property int
  | SetProperty string prop_value
  | SetSamplerType sampler_type

text \<open>\<^verbatim>\<open>action.execute(material, expression, y_pos)\<close>, dispatched on the class. The
  expression is a node the script has created, never \<^verbatim>\<open>None\<close>; the material is the
  caller's argument and may be \<^verbatim>\<open>None\<close>, on which \<^verbatim>\<open>SetProperty\<close> raises.\<close>

fun execute :: "action \<Rightarrow> ref \<Rightarrow> node \<Rightarrow> int \<Rightarrow> host \<Rightarrow> (py_error + unit) \<times> host" where
  "execute (CreateConnection output_name material_property) material expression y_pos h =
     (Inr (), request (ConnectMaterialProperty expression output_name material_property) h)"
| "execute (CreateConnectionScaled output_name material_property scale) material expression y_pos h =
     (let (multiply_node, h1) =
            create_material_expression material MaterialExpressionMultiply (- 250) y_pos h;
          h2 = request (SetEditorPropertyOfNode multiply_node ''ConstB'' (IntV scale)) h1;
          h3 = request (ConnectMaterialExpressions expression output_name multiply_node ''A'') h2
      in (Inr (), request (ConnectMaterialProperty multiply_node '''' material_property) h3))"
| "execute (SetProperty property v) material expression y_pos h =
     set_editor_property material property v h"
| "execute (SetSamplerType sampler_type) material expression y_pos h =
     (Inr (),
      request (SetEditorPropertyOfNode expression ''sampler_type'' (SamplerTypeV sampler_type)) h)"

text \<open>The dictionary \<^verbatim>\<open>actions\<close>, in the order its keys are written: a Python dictionary
  iterates in insertion order.\<close>

definition actions :: "(string \<times> action list) list" where
  "actions =
    [(''DA'', [CreateConnection ''RGB'' MP_BASE_COLOR,
               CreateConnection ''A'' MP_OPACITY,
               SetProperty ''blend_mode'' (BlendModeV BLEND_TRANSLUCENT)]),
     (''D'', [CreateConnection ''RGB'' MP_BASE_COLOR]),
     (''AO'', [CreateConnection ''R'' MP_AMBIENT_OCCLUSION,
               SetSamplerType SAMPLERTYPE_MASKS]),
     (''A'', [CreateConnection ''R'' MP_OPACITY,
              SetSamplerType SAMPLERTYPE_GRAYSCALE,
              SetProperty ''blend_mode'' (BlendModeV BLEND_TRANSLUCENT)]),
     (''N'', [CreateConnection ''RGB'' MP_NORMAL,
              SetSamplerType SAMPLERTYPE_NORMAL]),
     (''M'', [CreateConnection ''R'' MP_METALLIC,
              SetSamplerType SAMPLERTYPE_MASKS]),
     (''R'', [CreateConnection ''G'' MP_ROUGHNESS,
              SetSamplerType SAMPLERTYPE_MASKS]),
     (''S'', [CreateConnection ''B'' MP_SPECULAR,
              SetSamplerType SAMPLERTYPE_MASKS]),
     (''E'', [CreateConnectionScaled ''RGB'' MP_EMISSIVE_COLOR 15])]"

section \<open>Helper functions\<close>

text \<open>
  \<^verbatim>\<open>create_empty_material(name)\<close>. The host's \<^verbatim>\<open>create_unique_asset_name\<close> is not
  part of the script: it is the parameter \<open>unique\<close>, which may consult the host's asset
  database.
\<close>

type_synonym unique_name = "(string \<rightharpoonup> asset) \<Rightarrow> string \<Rightarrow> string \<Rightarrow> string \<times> string"

definition create_empty_material :: "unique_name \<Rightarrow> string \<Rightarrow> host \<Rightarrow> (py_error + ref) \<times> host" where
  "create_empty_material unique name h =
     (let (package_name, asset_name) = unique (assets h) name ''''
      in if \<not> does_asset_exist package_name h then
           (case item0 (rsplit1 CHR ''/'' package_name) of
              Inl e \<Rightarrow> (Inl e, h)
            | Inr path \<Rightarrow>
               (case item1 (rsplit1 CHR ''/'' package_name) of
                  Inl e \<Rightarrow> (Inl e, h)
                | Inr name' \<Rightarrow>
                    (let (a, h') = create_asset name' path Material h in (Inr a, h'))))
         else (Inr (load_asset package_name h), h))"

text \<open>The inner loop of \<^verbatim>\<open>apply_texture\<close>: \<^verbatim>\<open>for action in actions[key]\<close>; an
  exception of an action ends it.\<close>

fun execute_all :: "action list \<Rightarrow> ref \<Rightarrow> node \<Rightarrow> int \<Rightarrow> host \<Rightarrow> (py_error + unit) \<times> host" where
  "execute_all [] material sampler y_pos h = (Inr (), h)"
| "execute_all (a # as) material sampler y_pos h =
     (case execute a material sampler y_pos h of
        (Inl e, h') \<Rightarrow> (Inl e, h')
      | (Inr u, h') \<Rightarrow> execute_all as material sampler y_pos h')"

text \<open>The outer loop: \<^verbatim>\<open>for key in actions\<close>, over the entries still to visit, with the
  current value of \<^verbatim>\<open>texture_suffix\<close>. The value \<^verbatim>\<open>actions[key]\<close> of a key the
  iteration yields is the second component of its entry. An exception of an action ends
  the loop.\<close>

fun for_keys ::
    "(string \<times> action list) list \<Rightarrow> string \<Rightarrow> ref \<Rightarrow> node \<Rightarrow> int \<Rightarrow> host \<Rightarrow>
      (py_error + unit) \<times> host" where
  "for_keys [] texture_suffix material sampler y_pos h = (Inr (), h)"
| "for_keys ((key, as) # rest) texture_suffix material sampler y_pos h =
     (if contains key texture_suffix
      then (case execute_all as material sampler y_pos h of
              (Inl e, h') \<Rightarrow> (Inl e, h')
            | (Inr u, h') \<Rightarrow>
                for_keys rest (replace key '''' texture_suffix) material sampler y_pos h')
      else for_keys rest texture_suffix material sampler y_pos h)"

definition apply_texture :: "ref \<Rightarrow> string \<Rightarrow> int \<Rightarrow> host \<Rightarrow> (py_error + unit) \<times> host" where
  "apply_texture material texture_name y_pos h =
     (let (sampler, h1) =
            create_material_expression material MaterialExpressionTextureSample (- 500) y_pos h;
          h2 = request (SetTexture sampler (load_asset texture_name h1)) h1
      in case item1 (rsplit1 CHR ''_'' texture_name) of
           Inl e \<Rightarrow> (Inl e, h2)
         | Inr texture_suffix \<Rightarrow> for_keys actions texture_suffix material sampler y_pos h2)"

section \<open>Create material from selected textures\<close>

text \<open>The loop \<^verbatim>\<open>for asset in selected_assets\<close> with the current \<^verbatim>\<open>y_pos\<close>; an
  exception of \<^verbatim>\<open>apply_texture\<close> ends it.\<close>

fun for_selected :: "ref \<Rightarrow> asset list \<Rightarrow> int \<Rightarrow> host \<Rightarrow> (py_error + unit) \<times> host" where
  "for_selected material [] y_pos h = (Inr (), h)"
| "for_selected material (asset # rest) y_pos h =
     (if is_texture asset then
        (case apply_texture material (path_name asset) y_pos h of
           (Inl e, h') \<Rightarrow> (Inl e, h')
         | (Inr u, h') \<Rightarrow> for_selected material rest (y_pos + 250) h')
      else for_selected material rest y_pos h)"

definition create_material_from_textures ::
    "unique_name \<Rightarrow> string \<Rightarrow> host \<Rightarrow> (py_error + unit) \<times> host" where
  "create_material_from_textures unique name h =
     (case create_empty_material unique name h of
        (Inl e, h1) \<Rightarrow> (Inl e, h1)
      | (Inr material, h1) \<Rightarrow>
          (case for_selected material (selected h1) 0 h1 of
             (Inl e, h2) \<Rightarrow> (Inl e, h2)
           | (Inr u, h2) \<Rightarrow>
               (let h3 = request (RecompileMaterial material) h2
                in case get_path_name material of
                     Inl e \<Rightarrow> (Inl e, h3)
                   | Inr p \<Rightarrow>
                       (Inr (), request (OpenEditorForAssets [material])
                                  (request (SaveAsset p True) h3)))))"

section \<open>Notions used in the statements\<close>

text \<open>The host after the first two requests of \<^verbatim>\<open>apply_texture\<close>: the new texture sample
  node at \<open>(-500, y_pos)\<close> and the assignment of its texture.\<close>

definition with_sampler :: "ref \<Rightarrow> string \<Rightarrow> int \<Rightarrow> host \<Rightarrow> host" where
  "with_sampler material texture_name y_pos h =
     h\<lparr>next_node := Suc (next_node h),
       calls := calls h @
         [CreateMaterialExpression material MaterialExpressionTextureSample (- 500) y_pos (next_node h),
          SetTexture (next_node h) (load_asset texture_name h)]\<rparr>"

text \<open>
  The keys that match. \<open>strip_key\<close> is one visit of the key loop seen from the suffix: a key
  that occurs is removed. \<open>working_suffix visited s\<close> is what remains of the suffix \<open>s\<close> once
  the entries \<open>visited\<close> have been visited in order; the entry at index \<open>i\<close> matches when its
  key occurs in what remains after the \<open>i\<close> entries before it; \<open>matched\<close> lists the entries
  that match, in table order.
\<close>

definition strip_key :: "string \<Rightarrow> string \<Rightarrow> string" where
  "strip_key s key = (if contains key s then replace key '''' s else s)"

definition working_suffix :: "(string \<times> 'a) list \<Rightarrow> string \<Rightarrow> string" where
  "working_suffix visited s = foldl strip_key s (map fst visited)"

definition matches :: "(string \<times> 'a) list \<Rightarrow> string \<Rightarrow> nat \<Rightarrow> bool" where
  "matches tbl s i = contains (fst (tbl ! i)) (working_suffix (take i tbl) s)"

definition matched :: "(string \<times> 'a) list \<Rightarrow> string \<Rightarrow> (string \<times> 'a) list" where
  "matched tbl s = map (nth tbl) (filter (matches tbl s) [0..<length tbl])"

text \<open>\<^verbatim>\<open>sep.join(ps)\<close>, to say what \<^verbatim>\<open>replace\<close> removes.\<close>

fun join :: "string \<Rightarrow> string list \<Rightarrow> string" where
  "join sep [] = []"
| "join sep [p] = p"
| "join sep (p # q # ps) = p @ sep @ join sep (q # ps)"

text \<open>
  The layout of the selection, as the specification words it: the \<open>i\<close>-th texture of the
  selection, counting only textures, with the offset \<open>250 * i\<close>; and the successive calls
  of \<^verbatim>\<open>apply_texture\<close> for a list of names and offsets, ended by the first exception.
\<close>

definition layout :: "asset list \<Rightarrow> (string \<times> int) list" where
  "layout selection =
     (let textures = filter is_texture selection
      in map (\<lambda>i. (path_name (textures ! i), 250 * int i)) [0..<length textures])"

fun apply_textures :: "ref \<Rightarrow> (string \<times> int) list \<Rightarrow> host \<Rightarrow> (py_error + unit) \<times> host" where
  "apply_textures material [] h = (Inr (), h)"
| "apply_textures material ((texture_name, y_pos) # rest) h =
     (case apply_texture material texture_name y_pos h of
        (Inl e, h') \<Rightarrow> (Inl e, h')
      | (Inr u, h') \<Rightarrow> apply_textures material rest h')"

text \<open>The vertical offsets of the texture sample nodes a list of requests creates.\<close>

fun sample_offsets :: "host_call list \<Rightarrow> int list" where
  "sample_offsets [] = []"
| "sample_offsets (CreateMaterialExpression material MaterialExpressionTextureSample x y n # cs) =
     y # sample_offsets cs"
| "sample_offsets (c # cs) = sample_offsets cs"

text \<open>A host with no asset, no selection and no request made, and a material, for the
  examples.\<close>

definition empty_host :: host where
  "empty_host = \<lparr>assets = Map.empty, selected = [], next_node = 0, calls = []\<rparr>"

definition example_material :: asset where
  "example_material = \<lparr>asset_class = Material, path_name = ''/Game/M_Wood''\<rparr>"

text \<open>
  An instance of the host's \<^verbatim>\<open>create_unique_asset_name\<close> for the examples: the name
  itself while no asset has it, and the name with the digit 1 appended once it is taken;
  the asset name is the part after the last slash.
\<close>

definition example_unique :: unique_name where
  "example_unique db name sfx =
     (let p = name @ sfx; q = (if db p = None then p else p @ ''1'')
      in (q, last (rsplit1 CHR ''/'' q)))"

text \<open>
  A host with two textures and a sound, all three selected; the same host once the material
  \<open>/Game/M_Wood\<close> has been created; once the two textures have been applied to it; and
  once a second material \<open>/Game/M_Wood1\<close> has been created beside the first.
\<close>

definition example_texture :: asset where
  "example_texture = \<lparr>asset_class = Texture, path_name = ''/Game/T_Wood_D''\<rparr>"

definition example_normal :: asset where
  "example_normal = \<lparr>asset_class = Texture, path_name = ''/Game/T_Wood_N''\<rparr>"

definition example_sound :: asset where
  "example_sound = \<lparr>asset_class = OtherAsset, path_name = ''/Game/S_Creak''\<rparr>"

definition example_host :: host where
  "example_host =
     \<lparr>assets = [''/Game/T_Wood_D'' \<mapsto> example_texture, ''/Game/T_Wood_N'' \<mapsto> example_normal,
                ''/Game/S_Creak'' \<mapsto> example_sound],
      selected = [example_texture, example_sound, example_normal],
      next_node = 0, calls = []\<rparr>"

definition example_host_created :: host where
  "example_host_created =
     example_host\<lparr>assets := (assets example_host)(''/Game/M_Wood'' \<mapsto> example_material),
                  calls := [CreateAsset ''M_Wood'' ''/Game'' Material]\<rparr>"

definition example_host_applied :: host where
  "example_host_applied =
     example_host_created\<lparr>next_node := 2,
       calls :=
         [CreateAsset ''M_Wood'' ''/Game'' Material,
          CreateMaterialExpression (Some example_material) MaterialExpressionTextureSample (- 500) 0 0,
          SetTexture 0 (Some example_texture),
          ConnectMaterialProperty 0 ''RGB'' MP_BASE_COLOR,
          CreateMaterialExpression (Some example_material) MaterialExpressionTextureSample (- 500) 250 1,
          SetTexture 1 (Some example_normal),
          ConnectMaterialProperty 1 ''RGB'' MP_NORMAL,
          SetEditorPropertyOfNode 1 ''sampler_type'' (SamplerTypeV SAMPLERTYPE_NORMAL)]\<rparr>"



section \<open>Splitting at the last separator\<close>

lemma rsplit1_absent: "sep \<notin> set s \<Longrightarrow> rsplit1 sep s = [s]"
  by (simp add: rsplit1_def)

lemma rsplit1_split:
  assumes "sep \<notin> set suf"
  shows "rsplit1 sep (pre @ sep # suf) = [pre, suf]"
proof -
  have "takeWhile (\<lambda>c. c \<noteq> sep) (rev suf @ sep # rev pre) = rev suf @ takeWhile (\<lambda>c. c \<noteq> sep) (sep # rev pre)"
    using assms by (intro takeWhile_append2) auto
  then have tw: "takeWhile (\<lambda>c. c \<noteq> sep) (rev (pre @ sep # suf)) = rev suf"
    by simp
  have "rev (takeWhile (\<lambda>c. c \<noteq> sep) (rev (pre @ sep # suf))) = suf"
    by (simp only: tw rev_rev_ident)
  moreover have "sep \<in> set (pre @ sep # suf)" by simp
  moreover have "take (length (pre @ sep # suf) - length suf - 1) (pre @ sep # suf) = pre" by simp
  ultimately show ?thesis
    unfolding rsplit1_def Let_def by (simp only: if_True)
qed

lemma last_occurrence:
  "sep \<in> set s \<Longrightarrow> \<exists>pre suf. s = pre @ sep # suf \<and> sep \<notin> set suf"
  by (rule split_list_last)

lemma item1_rsplit1_split: "sep \<notin> set suf \<Longrightarrow> item1 (rsplit1 sep (pre @ sep # suf)) = Inr suf"
  by (simp add: rsplit1_split)


section \<open>The requests of \<^verbatim>\<open>apply_texture\<close>\<close>

lemma apply_texture_no_underscore:
  "CHR ''_'' \<notin> set texture_name \<Longrightarrow>
   apply_texture material texture_name y_pos h =
     (Inl IndexError, with_sampler material texture_name y_pos h)"
  by (simp add: apply_texture_def with_sampler_def create_material_expression_def request_def
      load_asset_def rsplit1_absent)

lemma apply_texture_underscore:
  "CHR ''_'' \<notin> set suf \<Longrightarrow>
   apply_texture material (pre @ CHR ''_'' # suf) y_pos h =
     for_keys actions suf material (next_node h) y_pos
       (with_sampler material (pre @ CHR ''_'' # suf) y_pos h)"
  by (simp add: apply_texture_def with_sampler_def create_material_expression_def request_def
      load_asset_def rsplit1_split)

lemma calls_request: "calls (request c h) = calls h @ [c]"
  by (simp add: request_def)

lemma calls_execute: "\<exists>cs. calls (snd (execute a material sampler y_pos h)) = calls h @ cs"
  by (cases a; cases material) (simp_all add: calls_request create_material_expression_def)

lemma calls_execute_all:
  "\<exists>cs. calls (snd (execute_all as material sampler y_pos h)) = calls h @ cs"
proof (induction as arbitrary: h)
  case Nil
  show ?case by simp
next
  case (Cons a as)
  obtain r h' where e: "execute a material sampler y_pos h = (r, h')"
    by (cases "execute a material sampler y_pos h")
  obtain cs where 1: "calls h' = calls h @ cs"
    using calls_execute [of a material sampler y_pos h] by (auto simp add: e)
  show ?case
  proof (cases r)
    case (Inl err)
    then show ?thesis by (simp add: e 1)
  next
    case (Inr u)
    obtain ds where 2: "calls (snd (execute_all as material sampler y_pos h')) = calls h' @ ds"
      using Cons.IH by blast
    show ?thesis by (simp add: e Inr 1 2)
  qed
qed

lemma for_keys_no_match:
  "\<forall>key \<in> fst ` set tbl. \<not> contains key s \<Longrightarrow>
   for_keys tbl s material sampler y_pos h = (Inr (), h)"
  by (induction tbl) auto

section \<open>Which keys match\<close>

lemma execute_all_append:
  "execute_all (as @ bs) material sampler y_pos h =
     (case execute_all as material sampler y_pos h of
        (Inl e, h') \<Rightarrow> (Inl e, h')
      | (Inr u, h') \<Rightarrow> execute_all bs material sampler y_pos h')"
  by (induction as arbitrary: h) (simp_all split: prod.splits sum.splits)

lemma working_suffix_Nil: "working_suffix [] s = s"
  by (simp add: working_suffix_def)

lemma working_suffix_Cons:
  "working_suffix ((key, v) # visited) s = working_suffix visited (strip_key s key)"
  by (simp add: working_suffix_def)

lemma matches_0: "matches ((key, v) # rest) s 0 = contains key s"
  by (simp add: matches_def working_suffix_Nil)

lemma matches_Suc: "matches ((key, v) # rest) s (Suc i) = matches rest (strip_key s key) i"
  by (simp add: matches_def working_suffix_Cons)

lemma matched_Nil: "matched [] s = []"
  by (simp add: matched_def)

lemma matched_Cons:
  "matched ((key, v) # rest) s =
     (if contains key s then (key, v) # matched rest (replace key '''' s) else matched rest s)"
proof -
  have upt: "[0..<length ((key, v) # rest)] = 0 # map Suc [0..<length rest]"
    by (simp add: upt_conv_Cons map_Suc_upt del: upt_Suc)
  have tail: "map (nth ((key, v) # rest)) (filter (matches ((key, v) # rest) s) (map Suc [0..<length rest]))
      = matched rest (strip_key s key)"
    by (simp add: matched_def filter_map comp_def matches_Suc)
  show ?thesis
    unfolding matched_def [of "(key, v) # rest"] upt
    using tail by (simp add: matches_0 strip_key_def)
qed

lemma for_keys_matched:
  "for_keys tbl s material sampler y_pos h =
     execute_all (concat (map snd (matched tbl s))) material sampler y_pos h"
proof (induction tbl arbitrary: s h)
  case Nil
  show ?case by (simp add: matched_Nil)
next
  case (Cons e tbl)
  obtain key as where e: "e = (key, as)" by (cases e)
  show ?case
    by (simp add: e matched_Cons Cons.IH execute_all_append split: prod.splits sum.splits)
qed

lemma calls_for_keys:
  "\<exists>cs. calls (snd (for_keys tbl s material sampler y_pos h)) = calls h @ cs"
  by (simp add: for_keys_matched calls_execute_all)

lemma execute_Some: "fst (execute a (Some m) sampler y_pos h) = Inr ()"
  by (cases a) (simp_all add: Let_def split: prod.splits)

lemma execute_all_Some: "fst (execute_all as (Some m) sampler y_pos h) = Inr ()"
proof (induction as arbitrary: h)
  case Nil
  show ?case by simp
next
  case (Cons a as)
  obtain r h' where e: "execute a (Some m) sampler y_pos h = (r, h')"
    by (cases "execute a (Some m) sampler y_pos h")
  have "r = Inr ()" using execute_Some [of a m sampler y_pos h] by (simp add: e)
  then show ?case by (simp add: e Cons.IH)
qed

lemma for_keys_Some: "fst (for_keys tbl s (Some m) sampler y_pos h) = Inr ()"
  by (simp add: for_keys_matched execute_all_Some)

lemma execute_not_IndexError: "fst (execute a material sampler y_pos h) \<noteq> Inl IndexError"
  by (cases a; cases material) (simp_all add: Let_def split: prod.splits)

lemma execute_all_not_IndexError:
  "fst (execute_all as material sampler y_pos h) \<noteq> Inl IndexError"
proof (induction as arbitrary: h)
  case Nil
  show ?case by simp
next
  case (Cons a as)
  obtain r h' where e: "execute a material sampler y_pos h = (r, h')"
    by (cases "execute a material sampler y_pos h")
  have "r \<noteq> Inl IndexError"
    using execute_not_IndexError [of a material sampler y_pos h] by (simp add: e)
  then show ?case
    by (cases r) (simp_all add: e Cons.IH)
qed

lemma for_keys_not_IndexError:
  "fst (for_keys tbl s material sampler y_pos h) \<noteq> Inl IndexError"
  by (simp add: for_keys_matched execute_all_not_IndexError)


lemma matched_subseq: "subseq (matched tbl s) tbl"
proof (induction tbl arbitrary: s)
  case Nil
  show ?case by (simp add: matched_Nil)
next
  case (Cons e tbl)
  obtain key v where e: "e = (key, v)" by (cases e)
  show ?case
    using Cons.IH [of s] Cons.IH [of "replace key '''' s"]
    by (auto simp add: e matched_Cons intro: list_emb_Cons)
qed

lemma subseq_distinct: "subseq xs ys \<Longrightarrow> distinct ys \<Longrightarrow> distinct xs"
proof (induction rule: list_emb.induct)
  case (list_emb_Nil ys)
  show ?case by simp
next
  case (list_emb_Cons xs ys y)
  then show ?case by simp
next
  case (list_emb_Cons2 x y xs ys)
  then have "x \<notin> set xs" using list_emb_set [of "(=)" xs ys] by auto
  with list_emb_Cons2 show ?case by simp
qed

lemma matched_keys_distinct: "distinct (map fst tbl) \<Longrightarrow> distinct (map fst (matched tbl s))"
  using subseq_distinct [OF subseq_map [OF matched_subseq]] by blast



lemma matched_DA:
  "matched actions ''DA'' =
     [(''DA'', [CreateConnection ''RGB'' MP_BASE_COLOR,
                CreateConnection ''A'' MP_OPACITY,
                SetProperty ''blend_mode'' (BlendModeV BLEND_TRANSLUCENT)])]"
  by (simp add: actions_def matched_Cons matched_Nil contains_def sublist_code prefix_code)


lemma actions_distinct: "distinct (map fst actions)"
  by (simp add: actions_def)

section \<open>What \<^verbatim>\<open>replace\<close> removes\<close>

lemma join_Cons: "ps \<noteq> [] \<Longrightarrow> join sep (p # ps) = p @ sep @ join sep ps"
  by (cases ps) simp_all

lemma join_Cons_head: "join sep ((c # p) # ps) = c # join sep (p # ps)"
  by (cases ps) simp_all

lemma prefix_join: "prefix p (join sep (p # ps))"
  by (cases ps) simp_all

lemma replace_join_aux:
  "key \<noteq> [] \<Longrightarrow> new = [] \<Longrightarrow>
   \<exists>ps. ps \<noteq> [] \<and> s = join key ps \<and> replace key new s = concat ps \<and>
        (\<forall>p \<in> set ps. \<not> contains key p)"
proof (induction key new s rule: replace.induct)
  case (1 old new)
  have "[[]] \<noteq> [] \<and> ([] :: string) = join old [[]] \<and> replace old new [] = concat [[]] \<and>
        (\<forall>p \<in> set [[]]. \<not> contains old p)"
    using "1.prems" by (simp add: contains_def)
  then show ?case by blast
next
  case (2 old new c cs)
  note nonempty = \<open>old \<noteq> []\<close> and new = \<open>new = []\<close>
  show ?case
  proof (cases "prefix old (c # cs)")
    case True
    with "2.IH"(2) nonempty new obtain ps where ps: "ps \<noteq> []" "drop (length old) (c # cs) = join old ps"
      "replace old new (drop (length old) (c # cs)) = concat ps" "\<forall>p \<in> set ps. \<not> contains old p"
      by blast
    from True have "c # cs = old @ drop (length old) (c # cs)"
      by (metis append_eq_conv_conj prefixE)
    then have "c # cs = join old ([] # ps)"
      using ps(1,2) by (simp add: join_Cons)
    moreover have "replace old new (c # cs) = concat ([] # ps)"
      using True nonempty new ps(3) by simp
    moreover have "\<forall>p \<in> set ([] # ps). \<not> contains old p"
      using ps(4) nonempty by (simp add: contains_def)
    ultimately have "[] # ps \<noteq> [] \<and> c # cs = join old ([] # ps) \<and>
        replace old new (c # cs) = concat ([] # ps) \<and> (\<forall>p \<in> set ([] # ps). \<not> contains old p)"
      by blast
    then show ?thesis by blast
  next
    case False
    with "2.IH"(3) nonempty new obtain ps where ps: "ps \<noteq> []" "cs = join old ps"
      "replace old new cs = concat ps" "\<forall>p \<in> set ps. \<not> contains old p"
      by blast
    from ps(1) obtain p0 ps' where ps0: "ps = p0 # ps'" by (cases ps) auto
    have "\<not> prefix old (c # p0)"
    proof
      assume "prefix old (c # p0)"
      moreover have "prefix (c # p0) (c # cs)"
        using prefix_join [of p0 old ps'] by (simp add: ps(2) ps0)
      ultimately have "prefix old (c # cs)" by (rule prefix_order.trans)
      with False show False by contradiction
    qed
    moreover have "\<not> contains old p0" using ps(4) by (simp add: ps0)
    ultimately have "\<not> contains old (c # p0)"
      by (simp add: contains_def sublist_Cons_right)
    then have "\<forall>p \<in> set ((c # p0) # ps'). \<not> contains old p"
      using ps(4) by (simp add: ps0)
    moreover have "c # cs = join old ((c # p0) # ps')"
      by (simp add: join_Cons_head ps(2) ps0)
    moreover have "replace old new (c # cs) = concat ((c # p0) # ps')"
      using False nonempty by (simp add: ps(3) ps0)
    ultimately have "(c # p0) # ps' \<noteq> [] \<and> c # cs = join old ((c # p0) # ps') \<and>
        replace old new (c # cs) = concat ((c # p0) # ps') \<and>
        (\<forall>p \<in> set ((c # p0) # ps'). \<not> contains old p)"
      by blast
    then show ?thesis by blast
  qed
qed

lemma replace_join:
  "key \<noteq> [] \<Longrightarrow>
   \<exists>ps. s = join key ps \<and> replace key '''' s = concat ps \<and> (\<forall>p \<in> set ps. \<not> contains key p)"
  using replace_join_aux [of key "[]" s] by blast

lemma replace_single: "replace [c] '''' s = filter (\<lambda>x. x \<noteq> c) s"
  by (induction s) auto

section \<open>The selection loop\<close>

lemma upt_0_Suc: "[0..<Suc n] = 0 # map Suc [0..<n]"
  by (simp add: upt_conv_Cons map_Suc_upt del: upt_Suc)

lemma for_selected_layout:
  "for_selected material selection y0 h =
     apply_textures material
       (map (\<lambda>i. (path_name (filter is_texture selection ! i), y0 + 250 * int i))
          [0..<length (filter is_texture selection)]) h"
proof (induction selection arbitrary: y0 h)
  case Nil
  show ?case by simp
next
  case (Cons a selection)
  show ?case
  proof (cases "is_texture a")
    case True
    have "map (\<lambda>i. (path_name (filter is_texture (a # selection) ! i), y0 + 250 * int i))
            [0..<length (filter is_texture (a # selection))] =
          (path_name a, y0) #
          map (\<lambda>i. (path_name (filter is_texture selection ! i), (y0 + 250) + 250 * int i))
            [0..<length (filter is_texture selection)]"
      using True by (simp add: upt_0_Suc comp_def algebra_simps del: upt_Suc)
    then show ?thesis
      using True Cons.IH [of "y0 + 250"]
      by (simp split: prod.splits sum.splits)
  next
    case False
    then show ?thesis using Cons.IH [of y0 h] by simp
  qed
qed

lemma for_selected_filter:
  "for_selected material selection y_pos h =
     for_selected material (filter is_texture selection) y_pos h"
  by (simp add: for_selected_layout)

lemma sample_offsets_append:
  "sample_offsets (cs @ ds) = sample_offsets cs @ sample_offsets ds"
  by (induction cs rule: sample_offsets.induct) simp_all

lemma sample_offsets_execute:
  "sample_offsets (calls (snd (execute a material sampler y_pos h))) = sample_offsets (calls h)"
  by (cases a; cases material)
     (simp_all add: request_def create_material_expression_def sample_offsets_append)

lemma sample_offsets_execute_all:
  "sample_offsets (calls (snd (execute_all as material sampler y_pos h))) = sample_offsets (calls h)"
proof (induction as arbitrary: h)
  case Nil
  show ?case by simp
next
  case (Cons a as)
  obtain r h' where e: "execute a material sampler y_pos h = (r, h')"
    by (cases "execute a material sampler y_pos h")
  have 1: "sample_offsets (calls h') = sample_offsets (calls h)"
    using sample_offsets_execute [of a material sampler y_pos h] by (simp add: e)
  show ?case
    by (cases r) (simp_all add: e 1 Cons.IH)
qed

lemma sample_offsets_for_keys:
  "sample_offsets (calls (snd (for_keys tbl s material sampler y_pos h))) = sample_offsets (calls h)"
  by (simp add: for_keys_matched sample_offsets_execute_all)

lemma sample_offsets_apply_texture:
  "sample_offsets (calls (snd (apply_texture material texture_name y_pos h))) =
     sample_offsets (calls h) @ [y_pos]"
proof (cases "CHR ''_'' \<in> set texture_name")
  case True
  from last_occurrence [OF True] obtain pre suf
    where n: "texture_name = pre @ CHR ''_'' # suf" and suf: "CHR ''_'' \<notin> set suf"
    by blast
  show ?thesis
    unfolding n using suf
    by (simp add: apply_texture_underscore sample_offsets_for_keys with_sampler_def load_asset_def
        sample_offsets_append)
next
  case False
  then show ?thesis
    by (simp add: apply_texture_no_underscore with_sampler_def load_asset_def sample_offsets_append)
qed

lemma sample_offsets_apply_textures:
  "fst (apply_textures material l h) = Inr () \<Longrightarrow>
   sample_offsets (calls (snd (apply_textures material l h))) = sample_offsets (calls h) @ map snd l"
proof (induction l arbitrary: h)
  case Nil
  show ?case by simp
next
  case (Cons p l)
  obtain texture_name y_pos where p: "p = (texture_name, y_pos)" by (cases p)
  obtain r h' where a: "apply_texture material texture_name y_pos h = (r, h')"
    by (cases "apply_texture material texture_name y_pos h")
  show ?case
  proof (cases r)
    case (Inl e)
    with Cons.prems show ?thesis by (simp add: p a)
  next
    case (Inr u)
    have "sample_offsets (calls h') = sample_offsets (calls h) @ [y_pos]"
      using sample_offsets_apply_texture [of material texture_name y_pos h] by (simp add: a)
    moreover have "fst (apply_textures material l h') = Inr ()"
      using Cons.prems by (simp add: p a Inr)
    ultimately show ?thesis
      using Cons.IH [of h'] by (simp add: p a Inr)
  qed
qed

section \<open>The selection is only read\<close>

lemma execute_selected:
  "execute a material sampler y_pos (h\<lparr>selected := s\<rparr>) =
     apsnd (\<lambda>h'. h'\<lparr>selected := s\<rparr>) (execute a material sampler y_pos h)"
  by (cases a; cases material) (simp_all add: request_def create_material_expression_def)

lemma execute_all_selected:
  "execute_all as material sampler y_pos (h\<lparr>selected := s\<rparr>) =
     apsnd (\<lambda>h'. h'\<lparr>selected := s\<rparr>) (execute_all as material sampler y_pos h)"
proof (induction as arbitrary: h)
  case Nil
  show ?case by simp
next
  case (Cons a as)
  show ?case
    by (simp add: execute_selected Cons.IH split: prod.splits sum.splits)
qed

lemma for_keys_selected:
  "for_keys tbl suf material sampler y_pos (h\<lparr>selected := s\<rparr>) =
     apsnd (\<lambda>h'. h'\<lparr>selected := s\<rparr>) (for_keys tbl suf material sampler y_pos h)"
  by (simp add: for_keys_matched execute_all_selected)

lemma with_sampler_selected:
  "with_sampler material texture_name y_pos (h\<lparr>selected := s\<rparr>) =
     (with_sampler material texture_name y_pos h)\<lparr>selected := s\<rparr>"
  by (simp add: with_sampler_def load_asset_def)

lemma apply_texture_selected:
  "apply_texture material texture_name y_pos (h\<lparr>selected := s\<rparr>) =
     apsnd (\<lambda>h'. h'\<lparr>selected := s\<rparr>) (apply_texture material texture_name y_pos h)"
proof (cases "CHR ''_'' \<in> set texture_name")
  case True
  from last_occurrence [OF True] obtain pre suf
    where n: "texture_name = pre @ CHR ''_'' # suf" and suf: "CHR ''_'' \<notin> set suf"
    by blast
  show ?thesis
    unfolding n using suf
    by (simp add: apply_texture_underscore with_sampler_selected for_keys_selected)
next
  case False
  then show ?thesis
    by (simp add: apply_texture_no_underscore with_sampler_selected)
qed

lemma for_selected_selected:
  "for_selected material selection y_pos (h\<lparr>selected := s\<rparr>) =
     apsnd (\<lambda>h'. h'\<lparr>selected := s\<rparr>) (for_selected material selection y_pos h)"
proof (induction selection arbitrary: y_pos h)
  case Nil
  show ?case by simp
next
  case (Cons a selection)
  show ?case
    by (simp add: apply_texture_selected Cons.IH split: prod.splits sum.splits)
qed

lemma create_empty_material_selected:
  "create_empty_material unique name (h\<lparr>selected := s\<rparr>) =
     apsnd (\<lambda>h'. h'\<lparr>selected := s\<rparr>) (create_empty_material unique name h)"
  by (simp add: create_empty_material_def does_asset_exist_def load_asset_def create_asset_def
      request_def Let_def split: prod.splits sum.splits)

lemma create_empty_material_keeps_selected:
  "create_empty_material unique name h = (r, h1) \<Longrightarrow> selected h1 = selected h"
  by (auto simp add: create_empty_material_def does_asset_exist_def load_asset_def create_asset_def
      request_def Let_def split: prod.splits sum.splits if_splits)

lemma create_empty_material_not_None:
  "create_empty_material unique name h = (Inr material, h1) \<Longrightarrow> \<exists>a. material = Some a"
  by (auto simp add: create_empty_material_def does_asset_exist_def load_asset_def create_asset_def
      request_def Let_def split: prod.splits sum.splits if_splits)

lemma create_material_from_textures_selected:
  "create_material_from_textures unique name (h\<lparr>selected := filter is_texture (selected h)\<rparr>) =
     apsnd (\<lambda>h'. h'\<lparr>selected := filter is_texture (selected h)\<rparr>)
       (create_material_from_textures unique name h)"
proof -
  obtain r h1 where c: "create_empty_material unique name h = (r, h1)"
    by (cases "create_empty_material unique name h")
  have s: "selected h1 = selected h"
    using c by (rule create_empty_material_keeps_selected)
  show ?thesis
  proof (cases r)
    case (Inl e)
    then show ?thesis
      by (simp add: create_material_from_textures_def create_empty_material_selected c)
  next
    case (Inr material)
    obtain r2 h2 where l: "for_selected material (selected h) 0 h1 = (r2, h2)"
      by (cases "for_selected material (selected h) 0 h1")
    have l': "for_selected material (filter is_texture (selected h)) 0 (h1\<lparr>selected := filter is_texture (selected h)\<rparr>) =
        (r2, h2\<lparr>selected := filter is_texture (selected h)\<rparr>)"
      using l for_selected_filter [of material "selected h" 0 h1]
      by (simp add: for_selected_selected)
    show ?thesis
      by (cases r2)
         (simp_all add: create_material_from_textures_def create_empty_material_selected c Inr s l l'
           request_def Let_def split: sum.splits)
  qed
qed

section \<open>Finding or creating the material\<close>

lemma create_empty_material_existing:
  "unique (assets h) name '''' = (package_name, asset_name) \<Longrightarrow>
   assets h package_name = Some a \<Longrightarrow>
   create_empty_material unique name h = (Inr (Some a), h)"
  by (simp add: create_empty_material_def does_asset_exist_def load_asset_def)

lemma create_empty_material_new:
  assumes "unique (assets h) name '''' = (package_name, asset_name)"
    and "assets h package_name = None"
    and "package_name = path @ CHR ''/'' # nm" and "CHR ''/'' \<notin> set nm"
  shows "create_empty_material unique name h =
     (Inr (Some \<lparr>asset_class = Material, path_name = package_name\<rparr>),
      h\<lparr>assets := (assets h)(package_name \<mapsto> \<lparr>asset_class = Material, path_name = package_name\<rparr>),
        calls := calls h @ [CreateAsset nm path Material]\<rparr>)"
proof -
  have "rsplit1 CHR ''/'' package_name = [path, nm]"
    unfolding assms(3) using assms(4) by (rule rsplit1_split)
  then show ?thesis
    using assms(1,2,3)
    by (simp add: create_empty_material_def does_asset_exist_def create_asset_def request_def Let_def)
qed

lemma create_empty_material_no_slash:
  "unique (assets h) name '''' = (package_name, asset_name) \<Longrightarrow>
   assets h package_name = None \<Longrightarrow> CHR ''/'' \<notin> set package_name \<Longrightarrow>
   create_empty_material unique name h = (Inl IndexError, h)"
  by (simp add: create_empty_material_def does_asset_exist_def rsplit1_absent)

lemma create_empty_material_cases:
  assumes "create_empty_material unique name h = (Inr material, h1)"
  shows "\<exists>a. material = Some a \<and> assets h1 (fst (unique (assets h) name '''')) = Some a \<and>
           (h1 = h \<or> (\<exists>nm path. h1 = h\<lparr>assets := (assets h)(fst (unique (assets h) name '''') \<mapsto> a),
                                  calls := calls h @ [CreateAsset nm path Material]\<rparr>))"
proof -
  obtain package_name asset_name where u: "unique (assets h) name '''' = (package_name, asset_name)"
    by (cases "unique (assets h) name ''''")
  show ?thesis
  proof (cases "assets h package_name")
    case (Some a)
    have "(Inr material, h1) = create_empty_material unique name h"
      using assms by (rule sym)
    also have "\<dots> = (Inr (Some a), h)"
      using u Some by (rule create_empty_material_existing)
    finally have "material = Some a" and "h1 = h" by blast+
    then show ?thesis using Some u by simp
  next
    case None
    show ?thesis
    proof (cases "CHR ''/'' \<in> set package_name")
      case True
      from last_occurrence [OF True] obtain path nm
        where p: "package_name = path @ CHR ''/'' # nm" and nm: "CHR ''/'' \<notin> set nm"
        by blast
      have "(Inr material, h1) = create_empty_material unique name h"
        using assms by (rule sym)
      also have "\<dots> =
         (Inr (Some \<lparr>asset_class = Material, path_name = package_name\<rparr>),
          h\<lparr>assets := (assets h)(package_name \<mapsto> \<lparr>asset_class = Material, path_name = package_name\<rparr>),
            calls := calls h @ [CreateAsset nm path Material]\<rparr>)"
        using u None p nm by (rule create_empty_material_new [of unique h name])
      finally have "material = Some \<lparr>asset_class = Material, path_name = package_name\<rparr>"
        and "h1 = h\<lparr>assets := (assets h)(package_name \<mapsto> \<lparr>asset_class = Material, path_name = package_name\<rparr>),
            calls := calls h @ [CreateAsset nm path Material]\<rparr>"
        by blast+
      then show ?thesis using u by auto
    next
      case False
      with u None assms show ?thesis by (simp add: create_empty_material_no_slash)
    qed
  qed
qed

section \<open>A run of the script\<close>

lemma example_created:
  "create_empty_material example_unique ''/Game/M_Wood'' example_host =
     (Inr (Some example_material), example_host_created)"
proof -
  have u: "example_unique (assets example_host) ''/Game/M_Wood'' '''' = (''/Game/M_Wood'', ''M_Wood'')"
    by (simp add: example_unique_def example_host_def rsplit1_def)
  have n: "assets example_host ''/Game/M_Wood'' = None"
    by (simp add: example_host_def)
  have p: "''/Game/M_Wood'' = ''/Game'' @ CHR ''/'' # ''M_Wood''" by simp
  have s: "CHR ''/'' \<notin> set ''M_Wood''" by simp
  have "create_empty_material example_unique ''/Game/M_Wood'' example_host =
     (Inr (Some \<lparr>asset_class = Material, path_name = ''/Game/M_Wood''\<rparr>),
      example_host\<lparr>assets := (assets example_host)(''/Game/M_Wood'' \<mapsto>
          \<lparr>asset_class = Material, path_name = ''/Game/M_Wood''\<rparr>),
        calls := calls example_host @ [CreateAsset ''M_Wood'' ''/Game'' Material]\<rparr>)"
    using u n p s by (rule create_empty_material_new)
  then show ?thesis
    by (simp add: example_host_created_def example_material_def example_host_def)
qed


lemma matched_D: "matched actions ''D'' = [(''D'', [CreateConnection ''RGB'' MP_BASE_COLOR])]"
  by (simp add: actions_def matched_Cons matched_Nil contains_def sublist_code prefix_code)

lemma matched_N:
  "matched actions ''N'' =
     [(''N'', [CreateConnection ''RGB'' MP_NORMAL, SetSamplerType SAMPLERTYPE_NORMAL])]"
  by (simp add: actions_def matched_Cons matched_Nil contains_def sublist_code prefix_code)

lemma example_apply_D:
  "apply_texture (Some example_material) ''/Game/T_Wood_D'' 0 example_host_created =
     (Inr (), example_host_created\<lparr>next_node := 1,
       calls :=
         [CreateAsset ''M_Wood'' ''/Game'' Material,
          CreateMaterialExpression (Some example_material) MaterialExpressionTextureSample (- 500) 0 0,
          SetTexture 0 (Some example_texture),
          ConnectMaterialProperty 0 ''RGB'' MP_BASE_COLOR]\<rparr>)"
proof -
  have "apply_texture (Some example_material) (''/Game/T_Wood'' @ CHR ''_'' # ''D'') 0 example_host_created =
     for_keys actions ''D'' (Some example_material) (next_node example_host_created) 0
       (with_sampler (Some example_material) (''/Game/T_Wood'' @ CHR ''_'' # ''D'') 0
          example_host_created)"
    by (rule apply_texture_underscore) simp
  then show ?thesis
    by (simp add: for_keys_matched matched_D with_sampler_def load_asset_def request_def
        example_host_created_def example_host_def)
qed

lemma example_apply_N:
  "apply_texture (Some example_material) ''/Game/T_Wood_N'' 250
     (example_host_created\<lparr>next_node := 1,
       calls :=
         [CreateAsset ''M_Wood'' ''/Game'' Material,
          CreateMaterialExpression (Some example_material) MaterialExpressionTextureSample (- 500) 0 0,
          SetTexture 0 (Some example_texture),
          ConnectMaterialProperty 0 ''RGB'' MP_BASE_COLOR]\<rparr>) =
     (Inr (), example_host_applied)"
proof -
  have "apply_texture (Some example_material) (''/Game/T_Wood'' @ CHR ''_'' # ''N'') 250
     (example_host_created\<lparr>next_node := 1,
       calls :=
         [CreateAsset ''M_Wood'' ''/Game'' Material,
          CreateMaterialExpression (Some example_material) MaterialExpressionTextureSample (- 500) 0 0,
          SetTexture 0 (Some example_texture),
          ConnectMaterialProperty 0 ''RGB'' MP_BASE_COLOR]\<rparr>) =
     for_keys actions ''N'' (Some example_material) 1 250
       (with_sampler (Some example_material) (''/Game/T_Wood'' @ CHR ''_'' # ''N'') 250
          (example_host_created\<lparr>next_node := 1,
       calls :=
         [CreateAsset ''M_Wood'' ''/Game'' Material,
          CreateMaterialExpression (Some example_material) MaterialExpressionTextureSample (- 500) 0 0,
          SetTexture 0 (Some example_texture),
          ConnectMaterialProperty 0 ''RGB'' MP_BASE_COLOR]\<rparr>))"
    using apply_texture_underscore [of "''N''" "Some example_material" "''/Game/T_Wood''" 250
      "example_host_created\<lparr>next_node := 1,
       calls :=
         [CreateAsset ''M_Wood'' ''/Game'' Material,
          CreateMaterialExpression (Some example_material) MaterialExpressionTextureSample (- 500) 0 0,
          SetTexture 0 (Some example_texture),
          ConnectMaterialProperty 0 ''RGB'' MP_BASE_COLOR]\<rparr>"]
    by simp
  then show ?thesis
    by (simp add: for_keys_matched matched_N with_sampler_def load_asset_def request_def
        example_host_created_def example_host_def example_host_applied_def)
qed

lemma example_selection:
  "selected example_host_created = [example_texture, example_sound, example_normal] \<and>
   is_texture example_texture \<and> \<not> is_texture example_sound \<and> is_texture example_normal \<and>
   path_name example_texture = ''/Game/T_Wood_D'' \<and> path_name example_normal = ''/Game/T_Wood_N''"
  by (simp add: example_host_created_def example_host_def is_texture_def example_texture_def
      example_sound_def example_normal_def)

lemma example_applied:
  "for_selected (Some example_material) (selected example_host_created) 0 example_host_created =
     (Inr (), example_host_applied)"
proof -
  have t: "is_texture example_texture = True" "is_texture example_sound = False"
    "is_texture example_normal = True"
    by (simp_all add: example_selection)
  have o: "(0::int) + 250 = 250" by simp
  show ?thesis
    by (simp only: example_selection [THEN conjunct1] for_selected.simps t if_True if_False
        example_selection [THEN conjunct2, THEN conjunct2, THEN conjunct2, THEN conjunct2]
        example_apply_D example_apply_N prod.case sum.case o)
qed

lemma example_finished:
  "create_material_from_textures example_unique ''/Game/M_Wood'' example_host =
     (Inr (), example_host_applied\<lparr>calls := calls example_host_applied @
        [RecompileMaterial (Some example_material), SaveAsset ''/Game/M_Wood'' True,
         OpenEditorForAssets [Some example_material]]\<rparr>)"
proof -
  have p: "path_name example_material = ''/Game/M_Wood''"
    by (simp add: example_material_def)
  show ?thesis
    by (simp add: create_material_from_textures_def example_created example_applied request_def p)
qed

section \<open>The suffix table\<close>

text \<open>
  Claim C5, as the specification states it: the suffix dictionary has exactly 8 keys.
  The dictionary of the script has nine entries, so the count 8 is refuted.
\<close>

theorem actions_not_eight_keys: "length actions \<noteq> 8 \<and> card (fst ` set actions) \<noteq> 8"
proof -
  have "distinct (map fst actions)" by (simp add: actions_def)
  then have "card (set (map fst actions)) = length (map fst actions)" by (rule distinct_card)
  then show ?thesis by (simp add: actions_def)
qed

text \<open>
  Claim C5, amended: the suffix dictionary has exactly 9 keys, pairwise distinct, which are
  in iteration order DA, D, AO, A, N, M, R, S, E.
\<close>

theorem actions_has_nine_keys:
  "length actions = 9 \<and> distinct (map fst actions) \<and>
   map fst actions = [''DA'', ''D'', ''AO'', ''A'', ''N'', ''M'', ''R'', ''S'', ''E'']"
  by (simp add: actions_def)

text \<open>
  Claim C6: key D maps to one action, the connection of the sampler's RGB output to the
  material's base colour; key DA maps to that connection followed by the connection of the A
  output to opacity and by setting the material's blend mode to translucent. Executing the
  two lists on a material makes exactly these requests of the host; where the material is
  \<^verbatim>\<open>None\<close> the two connections of DA are requested and setting the blend mode raises
  \<^verbatim>\<open>AttributeError\<close>.
\<close>

theorem actions_D_and_DA:
  "map_of actions ''D'' = Some [CreateConnection ''RGB'' MP_BASE_COLOR] \<and>
   map_of actions ''DA'' =
     Some [CreateConnection ''RGB'' MP_BASE_COLOR,
           CreateConnection ''A'' MP_OPACITY,
           SetProperty ''blend_mode'' (BlendModeV BLEND_TRANSLUCENT)] \<and>
   execute_all [CreateConnection ''RGB'' MP_BASE_COLOR] material sampler y_pos h =
     (Inr (), h\<lparr>calls := calls h @ [ConnectMaterialProperty sampler ''RGB'' MP_BASE_COLOR]\<rparr>) \<and>
   execute_all [CreateConnection ''RGB'' MP_BASE_COLOR,
                CreateConnection ''A'' MP_OPACITY,
                SetProperty ''blend_mode'' (BlendModeV BLEND_TRANSLUCENT)] (Some m) sampler y_pos h =
     (Inr (),
      h\<lparr>calls := calls h @
        [ConnectMaterialProperty sampler ''RGB'' MP_BASE_COLOR,
         ConnectMaterialProperty sampler ''A'' MP_OPACITY,
         SetEditorPropertyOfMaterial (Some m) ''blend_mode'' (BlendModeV BLEND_TRANSLUCENT)]\<rparr>) \<and>
   execute_all [CreateConnection ''RGB'' MP_BASE_COLOR,
                CreateConnection ''A'' MP_OPACITY,
                SetProperty ''blend_mode'' (BlendModeV BLEND_TRANSLUCENT)] None sampler y_pos h =
     (Inl AttributeError,
      h\<lparr>calls := calls h @
        [ConnectMaterialProperty sampler ''RGB'' MP_BASE_COLOR,
         ConnectMaterialProperty sampler ''A'' MP_OPACITY]\<rparr>)"
  by (simp add: actions_def request_def)

section \<open>Malformed texture names\<close>

text \<open>
  Claim C3: \<^verbatim>\<open>apply_texture\<close> raises the \<^verbatim>\<open>IndexError\<close> of the suffix extraction, the
  malformed-name condition, if and only if the texture name contains no underscore, whatever
  the material; for a name with an underscore the extraction succeeds and yields the text
  after the last underscore, and on a material that is not \<^verbatim>\<open>None\<close> the call returns
  normally exactly for these names.
\<close>

theorem apply_texture_fails_iff_no_underscore:
  "(fst (apply_texture material texture_name y_pos h) = Inl IndexError
      \<longleftrightarrow> CHR ''_'' \<notin> set texture_name) \<and>
   (fst (apply_texture (Some m) texture_name y_pos h) = Inr ()
      \<longleftrightarrow> CHR ''_'' \<in> set texture_name) \<and>
   (CHR ''_'' \<in> set texture_name \<longrightarrow>
      (\<exists>pre suf. texture_name = pre @ CHR ''_'' # suf \<and> CHR ''_'' \<notin> set suf \<and>
         item1 (rsplit1 CHR ''_'' texture_name) = Inr suf))"
proof (cases "CHR ''_'' \<in> set texture_name")
  case True
  from last_occurrence [OF True] obtain pre suf
    where n: "texture_name = pre @ CHR ''_'' # suf" and suf: "CHR ''_'' \<notin> set suf"
    by blast
  have "fst (apply_texture material texture_name y_pos h) \<noteq> Inl IndexError"
    unfolding n using suf by (simp add: apply_texture_underscore for_keys_not_IndexError)
  moreover have "fst (apply_texture (Some m) texture_name y_pos h) = Inr ()"
    unfolding n using suf by (simp add: apply_texture_underscore for_keys_Some)
  moreover have "item1 (rsplit1 CHR ''_'' texture_name) = Inr suf"
    unfolding n using suf by (rule item1_rsplit1_split)
  ultimately show ?thesis using True n suf by auto
next
  case False
  then show ?thesis by (simp add: apply_texture_no_underscore)
qed

theorem apply_texture_fails_iff_no_underscore_witness:
  "CHR ''_'' \<notin> set ''Wood'' \<and>
   fst (apply_texture (Some example_material) ''Wood'' 0 empty_host) = Inl IndexError \<and>
   CHR ''_'' \<in> set ''T_Wood_D'' \<and>
   fst (apply_texture (Some example_material) ''T_Wood_D'' 0 empty_host) = Inr () \<and>
   fst (apply_texture None ''T_Wood_D'' 0 empty_host) \<noteq> Inl IndexError \<and>
   (\<exists>pre suf. ''T_Wood_D'' = pre @ CHR ''_'' # suf \<and> CHR ''_'' \<notin> set suf \<and>
      item1 (rsplit1 CHR ''_'' ''T_Wood_D'') = Inr suf)"
  using apply_texture_fails_iff_no_underscore
      [where material = "Some example_material" and texture_name = "''Wood''" and y_pos = 0
         and h = empty_host and m = example_material]
    apply_texture_fails_iff_no_underscore
      [where material = None and texture_name = "''T_Wood_D''" and y_pos = 0
         and h = empty_host and m = example_material]
  by simp

section \<open>The texture sample node\<close>

text \<open>
  Claim C9: every call of \<^verbatim>\<open>apply_texture\<close> first creates a texture sample node at
  \<open>(-500, y_pos)\<close> and assigns its texture, whatever happens afterwards; when the suffix
  contains no key of the table these two requests are all the call makes, so the node stays
  unconnected.
\<close>

theorem apply_texture_always_adds_sampler:
  "(\<exists>rest. calls (snd (apply_texture material texture_name y_pos h)) =
      calls h @
        CreateMaterialExpression material MaterialExpressionTextureSample (- 500) y_pos (next_node h)
        # SetTexture (next_node h) (load_asset texture_name h) # rest) \<and>
   (CHR ''_'' \<notin> set suf \<longrightarrow> (\<forall>key \<in> fst ` set actions. \<not> contains key suf) \<longrightarrow>
      apply_texture material (pre @ CHR ''_'' # suf) y_pos h =
        (Inr (),
         h\<lparr>next_node := Suc (next_node h),
           calls := calls h @
             [CreateMaterialExpression material MaterialExpressionTextureSample (- 500) y_pos (next_node h),
              SetTexture (next_node h) (load_asset (pre @ CHR ''_'' # suf) h)]\<rparr>))"
proof (intro conjI impI)
  show "\<exists>rest. calls (snd (apply_texture material texture_name y_pos h)) =
      calls h @
        CreateMaterialExpression material MaterialExpressionTextureSample (- 500) y_pos (next_node h)
        # SetTexture (next_node h) (load_asset texture_name h) # rest"
  proof (cases "CHR ''_'' \<in> set texture_name")
    case True
    from last_occurrence [OF True] obtain pre' suf'
      where n: "texture_name = pre' @ CHR ''_'' # suf'" and suf: "CHR ''_'' \<notin> set suf'"
      by blast
    obtain cs where "calls (snd (for_keys actions suf' material (next_node h) y_pos
        (with_sampler material texture_name y_pos h))) =
        calls (with_sampler material texture_name y_pos h) @ cs"
      using calls_for_keys by blast
    then show ?thesis
      using suf by (simp add: n apply_texture_underscore with_sampler_def load_asset_def)
  next
    case False
    then show ?thesis
      by (simp add: apply_texture_no_underscore with_sampler_def load_asset_def)
  qed
next
  assume "CHR ''_'' \<notin> set suf" and "\<forall>key \<in> fst ` set actions. \<not> contains key suf"
  then show "apply_texture material (pre @ CHR ''_'' # suf) y_pos h =
        (Inr (),
         h\<lparr>next_node := Suc (next_node h),
           calls := calls h @
             [CreateMaterialExpression material MaterialExpressionTextureSample (- 500) y_pos (next_node h),
              SetTexture (next_node h) (load_asset (pre @ CHR ''_'' # suf) h)]\<rparr>)"
    by (simp add: apply_texture_underscore for_keys_no_match with_sampler_def load_asset_def)
qed

theorem apply_texture_always_adds_sampler_witness:
  "CHR ''_'' \<notin> set ''X'' \<and> 
   \<not> contains ''DA'' ''X'' \<and> \<not> contains ''D'' ''X'' \<and> \<not> contains ''AO'' ''X'' \<and>
   \<not> contains ''A'' ''X'' \<and> \<not> contains ''N'' ''X'' \<and> \<not> contains ''M'' ''X'' \<and>
   \<not> contains ''R'' ''X'' \<and> \<not> contains ''S'' ''X'' \<and> \<not> contains ''E'' ''X'' \<and>
   apply_texture (Some example_material) ''T_Wood_X'' 250 empty_host =
     (Inr (),
      \<lparr>assets = Map.empty, selected = [], next_node = 1,
       calls = [CreateMaterialExpression (Some example_material) MaterialExpressionTextureSample (- 500) 250 0,
                SetTexture 0 None]\<rparr>)"
  using apply_texture_always_adds_sampler
    [of "Some example_material" "''T_Wood_X''" 250 empty_host "''X''" "''T_Wood''"]
  by (simp add: actions_def contains_def sublist_code prefix_code empty_host_def load_asset_def)

section \<open>Dispatch on the suffix\<close>




text \<open>
  Claim C8: matching is destructive. When a key matches, its occurrences are replaced by
  nothing in the suffix (what remains is the pieces between the removed occurrences, none
  of which contains the key; for a key of one character it is the suffix without that
  character) and, once the key's actions have run, the rest of the table is tested against
  what remains. The entries whose actions run form a subsequence of the table with pairwise
  distinct keys, so no action list runs twice. For the suffix \<open>DA\<close> only the entry \<open>DA\<close>
  matches: on a material the call makes the three requests of its actions and none of \<open>D\<close>
  or \<open>A\<close>; on \<^verbatim>\<open>None\<close> it makes the two connections of \<open>DA\<close> and raises
  \<^verbatim>\<open>AttributeError\<close> at the third action.
\<close>

theorem suffix_matching_is_destructive:
  "(contains key s \<longrightarrow>
      for_keys ((key, as) # rest) s material sampler y_pos h =
        (case execute_all as material sampler y_pos h of
           (Inl e, h') \<Rightarrow> (Inl e, h')
         | (Inr u, h') \<Rightarrow> for_keys rest (replace key '''' s) material sampler y_pos h')) \<and>
   (key \<noteq> [] \<longrightarrow>
      (\<exists>ps. s = join key ps \<and> replace key '''' s = concat ps \<and>
            (\<forall>p \<in> set ps. \<not> contains key p))) \<and>
   replace [c] '''' s = filter (\<lambda>x. x \<noteq> c) s \<and>
   (CHR ''_'' \<notin> set suf \<longrightarrow>
      subseq (matched actions suf) actions \<and> distinct (map fst (matched actions suf)) \<and>
      apply_texture material (pre @ CHR ''_'' # suf) y_pos h =
        execute_all (concat (map snd (matched actions suf))) material (next_node h) y_pos
          (with_sampler material (pre @ CHR ''_'' # suf) y_pos h)) \<and>
   matched actions ''DA'' =
     [(''DA'', [CreateConnection ''RGB'' MP_BASE_COLOR,
                CreateConnection ''A'' MP_OPACITY,
                SetProperty ''blend_mode'' (BlendModeV BLEND_TRANSLUCENT)])] \<and>
   apply_texture (Some m) (pre @ ''_DA'') y_pos h =
     (Inr (),
      h\<lparr>next_node := Suc (next_node h),
        calls := calls h @
          [CreateMaterialExpression (Some m) MaterialExpressionTextureSample (- 500) y_pos (next_node h),
           SetTexture (next_node h) (load_asset (pre @ ''_DA'') h),
           ConnectMaterialProperty (next_node h) ''RGB'' MP_BASE_COLOR,
           ConnectMaterialProperty (next_node h) ''A'' MP_OPACITY,
           SetEditorPropertyOfMaterial (Some m) ''blend_mode'' (BlendModeV BLEND_TRANSLUCENT)]\<rparr>) \<and>
   apply_texture None (pre @ ''_DA'') y_pos h =
     (Inl AttributeError,
      h\<lparr>next_node := Suc (next_node h),
        calls := calls h @
          [CreateMaterialExpression None MaterialExpressionTextureSample (- 500) y_pos (next_node h),
           SetTexture (next_node h) (load_asset (pre @ ''_DA'') h),
           ConnectMaterialProperty (next_node h) ''RGB'' MP_BASE_COLOR,
           ConnectMaterialProperty (next_node h) ''A'' MP_OPACITY]\<rparr>)"
proof (intro conjI impI)
  assume "key \<noteq> []"
  then show "\<exists>ps. s = join key ps \<and> replace key '''' s = concat ps \<and>
            (\<forall>p \<in> set ps. \<not> contains key p)"
    by (rule replace_join)
next
  show "replace [c] '''' s = filter (\<lambda>x. x \<noteq> c) s"
    by (rule replace_single)
next
  assume "contains key s"
  then show "for_keys ((key, as) # rest) s material sampler y_pos h =
        (case execute_all as material sampler y_pos h of
           (Inl e, h') \<Rightarrow> (Inl e, h')
         | (Inr u, h') \<Rightarrow> for_keys rest (replace key '''' s) material sampler y_pos h')"
    by simp
next
  show "subseq (matched actions suf) actions" by (rule matched_subseq)
next
  show "distinct (map fst (matched actions suf))"
    using actions_distinct by (rule matched_keys_distinct)
next
  assume "CHR ''_'' \<notin> set suf"
  then show "apply_texture material (pre @ CHR ''_'' # suf) y_pos h =
        execute_all (concat (map snd (matched actions suf))) material (next_node h) y_pos
          (with_sampler material (pre @ CHR ''_'' # suf) y_pos h)"
    by (simp add: apply_texture_underscore for_keys_matched)
next
  show "matched actions ''DA'' =
     [(''DA'', [CreateConnection ''RGB'' MP_BASE_COLOR,
                CreateConnection ''A'' MP_OPACITY,
                SetProperty ''blend_mode'' (BlendModeV BLEND_TRANSLUCENT)])]"
    by (rule matched_DA)
next
  have "apply_texture (Some m) (pre @ CHR ''_'' # ''DA'') y_pos h =
     for_keys actions ''DA'' (Some m) (next_node h) y_pos
       (with_sampler (Some m) (pre @ CHR ''_'' # ''DA'') y_pos h)"
    by (rule apply_texture_underscore) simp
  then show "apply_texture (Some m) (pre @ ''_DA'') y_pos h =
     (Inr (),
      h\<lparr>next_node := Suc (next_node h),
        calls := calls h @
          [CreateMaterialExpression (Some m) MaterialExpressionTextureSample (- 500) y_pos (next_node h),
           SetTexture (next_node h) (load_asset (pre @ ''_DA'') h),
           ConnectMaterialProperty (next_node h) ''RGB'' MP_BASE_COLOR,
           ConnectMaterialProperty (next_node h) ''A'' MP_OPACITY,
           SetEditorPropertyOfMaterial (Some m) ''blend_mode'' (BlendModeV BLEND_TRANSLUCENT)]\<rparr>)"
    by (simp add: for_keys_matched matched_DA with_sampler_def request_def load_asset_def)
next
  have "apply_texture None (pre @ CHR ''_'' # ''DA'') y_pos h =
     for_keys actions ''DA'' None (next_node h) y_pos
       (with_sampler None (pre @ CHR ''_'' # ''DA'') y_pos h)"
    by (rule apply_texture_underscore) simp
  then show "apply_texture None (pre @ ''_DA'') y_pos h =
     (Inl AttributeError,
      h\<lparr>next_node := Suc (next_node h),
        calls := calls h @
          [CreateMaterialExpression None MaterialExpressionTextureSample (- 500) y_pos (next_node h),
           SetTexture (next_node h) (load_asset (pre @ ''_DA'') h),
           ConnectMaterialProperty (next_node h) ''RGB'' MP_BASE_COLOR,
           ConnectMaterialProperty (next_node h) ''A'' MP_OPACITY]\<rparr>)"
    by (simp add: for_keys_matched matched_DA with_sampler_def request_def load_asset_def)
qed

theorem suffix_matching_is_destructive_witness:
  "contains ''D'' ''ADO'' \<and>
   for_keys [(''D'', [CreateConnection ''RGB'' MP_BASE_COLOR]),
             (''AO'', [CreateConnection ''R'' MP_AMBIENT_OCCLUSION])] ''ADO''
       (Some example_material) 0 0 empty_host =
     for_keys [(''AO'', [CreateConnection ''R'' MP_AMBIENT_OCCLUSION])] ''AO''
       (Some example_material) 0 0
       (empty_host\<lparr>calls := [ConnectMaterialProperty 0 ''RGB'' MP_BASE_COLOR]\<rparr>) \<and>
   replace ''D'' '''' ''ADO'' = ''AO'' \<and>
   (\<exists>ps. ''ADO'' = join ''D'' ps \<and> replace ''D'' '''' ''ADO'' = concat ps \<and>
         (\<forall>p \<in> set ps. \<not> contains ''D'' p)) \<and>
   CHR ''_'' \<notin> set ''DA'' \<and>
   distinct (map fst (matched actions ''DA'')) \<and>
   apply_texture (Some example_material) ''T_Glass_DA'' 0 empty_host =
     (Inr (),
      \<lparr>assets = Map.empty, selected = [], next_node = 1,
       calls =
        [CreateMaterialExpression (Some example_material) MaterialExpressionTextureSample (- 500) 0 0,
         SetTexture 0 None,
         ConnectMaterialProperty 0 ''RGB'' MP_BASE_COLOR,
         ConnectMaterialProperty 0 ''A'' MP_OPACITY,
         SetEditorPropertyOfMaterial (Some example_material) ''blend_mode''
           (BlendModeV BLEND_TRANSLUCENT)]\<rparr>) \<and>
   apply_texture None ''T_Glass_DA'' 0 empty_host =
     (Inl AttributeError,
      \<lparr>assets = Map.empty, selected = [], next_node = 1,
       calls =
        [CreateMaterialExpression None MaterialExpressionTextureSample (- 500) 0 0,
         SetTexture 0 None,
         ConnectMaterialProperty 0 ''RGB'' MP_BASE_COLOR,
         ConnectMaterialProperty 0 ''A'' MP_OPACITY]\<rparr>)"
proof -
  note inst = suffix_matching_is_destructive
    [where key = "''D''" and s = "''ADO''" and as = "[CreateConnection ''RGB'' MP_BASE_COLOR]"
       and rest = "[(''AO'', [CreateConnection ''R'' MP_AMBIENT_OCCLUSION])]"
       and material = "Some example_material" and sampler = 0 and y_pos = 0 and h = empty_host
       and c = "CHR ''D''" and suf = "''DA''" and pre = "''T_Glass''" and m = example_material]
  have k: "contains ''D'' ''ADO''"
    by (simp add: contains_def sublist_code prefix_code)
  have r: "replace ''D'' '''' ''ADO'' = ''AO''" by simp
  have u: "CHR ''_'' \<notin> set ''DA''" by simp
  have e: "execute_all [CreateConnection ''RGB'' MP_BASE_COLOR] (Some example_material) 0 0 empty_host =
      (Inr (), empty_host\<lparr>calls := [ConnectMaterialProperty 0 ''RGB'' MP_BASE_COLOR]\<rparr>)"
    by (simp add: request_def empty_host_def)
  from inst k have "for_keys [(''D'', [CreateConnection ''RGB'' MP_BASE_COLOR]),
             (''AO'', [CreateConnection ''R'' MP_AMBIENT_OCCLUSION])] ''ADO''
       (Some example_material) 0 0 empty_host =
     (case execute_all [CreateConnection ''RGB'' MP_BASE_COLOR] (Some example_material) 0 0 empty_host of
        (Inl e, h') \<Rightarrow> (Inl e, h')
      | (Inr u, h') \<Rightarrow>
          for_keys [(''AO'', [CreateConnection ''R'' MP_AMBIENT_OCCLUSION])]
            (replace ''D'' '''' ''ADO'') (Some example_material) 0 0 h')"
    by blast
  then have 1: "for_keys [(''D'', [CreateConnection ''RGB'' MP_BASE_COLOR]),
             (''AO'', [CreateConnection ''R'' MP_AMBIENT_OCCLUSION])] ''ADO''
       (Some example_material) 0 0 empty_host =
     for_keys [(''AO'', [CreateConnection ''R'' MP_AMBIENT_OCCLUSION])] ''AO''
       (Some example_material) 0 0
       (empty_host\<lparr>calls := [ConnectMaterialProperty 0 ''RGB'' MP_BASE_COLOR]\<rparr>)"
    by (simp only: e r prod.case sum.case)
  from inst have 2: "\<exists>ps. ''ADO'' = join ''D'' ps \<and> replace ''D'' '''' ''ADO'' = concat ps \<and>
         (\<forall>p \<in> set ps. \<not> contains ''D'' p)"
    by blast
  from inst u have 3: "distinct (map fst (matched actions ''DA''))" by blast
  from inst have "apply_texture (Some example_material) (''T_Glass'' @ ''_DA'') 0 empty_host =
     (Inr (),
      empty_host\<lparr>next_node := Suc (next_node empty_host),
        calls := calls empty_host @
          [CreateMaterialExpression (Some example_material) MaterialExpressionTextureSample (- 500) 0
             (next_node empty_host),
           SetTexture (next_node empty_host) (load_asset (''T_Glass'' @ ''_DA'') empty_host),
           ConnectMaterialProperty (next_node empty_host) ''RGB'' MP_BASE_COLOR,
           ConnectMaterialProperty (next_node empty_host) ''A'' MP_OPACITY,
           SetEditorPropertyOfMaterial (Some example_material) ''blend_mode''
             (BlendModeV BLEND_TRANSLUCENT)]\<rparr>)"
    by blast
  then have 4: "apply_texture (Some example_material) ''T_Glass_DA'' 0 empty_host =
     (Inr (),
      \<lparr>assets = Map.empty, selected = [], next_node = 1,
       calls =
        [CreateMaterialExpression (Some example_material) MaterialExpressionTextureSample (- 500) 0 0,
         SetTexture 0 None,
         ConnectMaterialProperty 0 ''RGB'' MP_BASE_COLOR,
         ConnectMaterialProperty 0 ''A'' MP_OPACITY,
         SetEditorPropertyOfMaterial (Some example_material) ''blend_mode''
           (BlendModeV BLEND_TRANSLUCENT)]\<rparr>)"
    by (simp add: empty_host_def load_asset_def)
  from inst have "apply_texture None (''T_Glass'' @ ''_DA'') 0 empty_host =
     (Inl AttributeError,
      empty_host\<lparr>next_node := Suc (next_node empty_host),
        calls := calls empty_host @
          [CreateMaterialExpression None MaterialExpressionTextureSample (- 500) 0
             (next_node empty_host),
           SetTexture (next_node empty_host) (load_asset (''T_Glass'' @ ''_DA'') empty_host),
           ConnectMaterialProperty (next_node empty_host) ''RGB'' MP_BASE_COLOR,
           ConnectMaterialProperty (next_node empty_host) ''A'' MP_OPACITY]\<rparr>)"
    by blast
  then have 5: "apply_texture None ''T_Glass_DA'' 0 empty_host =
     (Inl AttributeError,
      \<lparr>assets = Map.empty, selected = [], next_node = 1,
       calls =
        [CreateMaterialExpression None MaterialExpressionTextureSample (- 500) 0 0,
         SetTexture 0 None,
         ConnectMaterialProperty 0 ''RGB'' MP_BASE_COLOR,
         ConnectMaterialProperty 0 ''A'' MP_OPACITY]\<rparr>)"
    by (simp add: empty_host_def load_asset_def)
  from k 1 r 2 u 3 4 5 show ?thesis by blast
qed

section \<open>The material asset\<close>




section \<open>The selected assets\<close>

text \<open>
  Claim C4: the loop of \<^verbatim>\<open>create_material_from_textures\<close> applies the \<open>i\<close>-th texture of
  the selection, counting only textures from 0, at the vertical offset \<open>250 * i\<close>; when the
  procedure returns, the texture sample nodes it has created lie at the offsets
  \<open>0, 250, 500, \<dots>\<close>, one for each selected texture.
\<close>

theorem layout_offsets:
  "for_selected material selection 0 h = apply_textures material (layout selection) h \<and>
   (fst (create_material_from_textures unique name h) = Inr () \<longrightarrow>
      sample_offsets (calls (snd (create_material_from_textures unique name h))) =
        sample_offsets (calls h) @
        map (\<lambda>i. 250 * int i) [0..<length (filter is_texture (selected h))])"
proof (intro conjI impI)
  show "for_selected material selection 0 h = apply_textures material (layout selection) h"
    by (simp add: for_selected_layout layout_def Let_def)
next
  assume ok: "fst (create_material_from_textures unique name h) = Inr ()"
  obtain r h1 where c: "create_empty_material unique name h = (r, h1)"
    by (cases "create_empty_material unique name h")
  from ok c obtain material where r: "r = Inr material"
    by (cases r) (simp_all add: create_material_from_textures_def)
  have s: "selected h1 = selected h"
    using c by (rule create_empty_material_keeps_selected)
  from create_empty_material_cases [OF c [unfolded r]]
  have o1: "sample_offsets (calls h1) = sample_offsets (calls h)"
    by (auto simp add: sample_offsets_append)
  obtain r2 h2 where l: "apply_textures material (layout (selected h)) h1 = (r2, h2)"
    by (cases "apply_textures material (layout (selected h)) h1")
  have l': "for_selected material (selected h1) 0 h1 = (r2, h2)"
    using l by (simp add: s for_selected_layout layout_def Let_def)
  from ok have r2: "r2 = Inr ()"
    by (cases r2) (simp_all add: create_material_from_textures_def c r l')
  have "sample_offsets (calls (snd (apply_textures material (layout (selected h)) h1))) =
      sample_offsets (calls h1) @ map snd (layout (selected h))"
    by (rule sample_offsets_apply_textures) (simp add: l r2)
  moreover have "map snd (layout (selected h)) =
      map (\<lambda>i. 250 * int i) [0..<length (filter is_texture (selected h))]"
    by (simp add: layout_def comp_def Let_def)
  ultimately have o2: "sample_offsets (calls h2) =
      sample_offsets (calls h) @ map (\<lambda>i. 250 * int i) [0..<length (filter is_texture (selected h))]"
    by (simp add: l o1)
  from ok have "calls (snd (create_material_from_textures unique name h)) =
      calls h2 @ [RecompileMaterial material,
                  SaveAsset (case get_path_name material of Inr p \<Rightarrow> p | Inl e \<Rightarrow> []) True,
                  OpenEditorForAssets [material]]"
    by (simp add: create_material_from_textures_def c r l' r2 request_def Let_def split: sum.splits)
  then show "sample_offsets (calls (snd (create_material_from_textures unique name h))) =
        sample_offsets (calls h) @
        map (\<lambda>i. 250 * int i) [0..<length (filter is_texture (selected h))]"
    by (simp add: sample_offsets_append o2)
qed

theorem layout_offsets_witness:
  "fst (create_material_from_textures example_unique ''/Game/M_Wood'' example_host) = Inr () \<and>
   sample_offsets (calls (snd (create_material_from_textures example_unique ''/Game/M_Wood''
       example_host))) = [0, 250] \<and>
   layout (selected example_host) = [(''/Game/T_Wood_D'', 0), (''/Game/T_Wood_N'', 250)]"
proof -
  have ok: "fst (create_material_from_textures example_unique ''/Game/M_Wood'' example_host) = Inr ()"
    by (simp add: example_finished)
  have sel: "filter is_texture (selected example_host) = [example_texture, example_normal]"
    by (simp add: example_host_def is_texture_def example_texture_def example_sound_def
        example_normal_def)
  have two: "[0..<length [example_texture, example_normal]] = [0, 1]"
    by (simp add: upt_conv_Cons)
  from layout_offsets [of "Some example_material" "[]" example_host example_unique "''/Game/M_Wood''"] ok
  have "sample_offsets (calls (snd (create_material_from_textures example_unique ''/Game/M_Wood''
       example_host))) =
     sample_offsets (calls example_host) @
     map (\<lambda>i. 250 * int i) [0..<length (filter is_texture (selected example_host))]"
    by blast
  then have "sample_offsets (calls (snd (create_material_from_textures example_unique ''/Game/M_Wood''
       example_host))) = [0, 250]"
    unfolding sel two by (simp add: example_host_def)
  moreover have "layout (selected example_host) = [(''/Game/T_Wood_D'', 0), (''/Game/T_Wood_N'', 250)]"
    unfolding layout_def Let_def sel two
    by (simp add: example_texture_def example_normal_def)
  ultimately show ?thesis using ok by blast
qed

text \<open>
  Claim C10: a selected asset that is not a texture is skipped, with no call of
  \<^verbatim>\<open>apply_texture\<close> and the offset unchanged: the loop does on a selection what it does on
  the textures of that selection, a selection without textures leaves the host as it is, and
  removing the assets that are not textures from the selection changes nothing else in what
  \<^verbatim>\<open>create_material_from_textures\<close> does.
\<close>

theorem non_textures_are_skipped:
  "(\<not> is_texture a \<longrightarrow>
      for_selected material (a # rest) y_pos h = for_selected material rest y_pos h) \<and>
   for_selected material selection y_pos h =
     for_selected material (filter is_texture selection) y_pos h \<and>
   ((\<forall>a \<in> set selection. \<not> is_texture a) \<longrightarrow>
      for_selected material selection y_pos h = (Inr (), h)) \<and>
   create_material_from_textures unique name (h\<lparr>selected := filter is_texture (selected h)\<rparr>) =
     apsnd (\<lambda>h'. h'\<lparr>selected := filter is_texture (selected h)\<rparr>)
       (create_material_from_textures unique name h)"
proof (intro conjI impI)
  assume "\<not> is_texture a"
  then show "for_selected material (a # rest) y_pos h = for_selected material rest y_pos h"
    by simp
next
  show "for_selected material selection y_pos h =
     for_selected material (filter is_texture selection) y_pos h"
    by (rule for_selected_filter)
next
  assume "\<forall>a \<in> set selection. \<not> is_texture a"
  then have "filter is_texture selection = []" by (simp add: filter_empty_conv)
  then show "for_selected material selection y_pos h = (Inr (), h)"
    using for_selected_filter [of material selection y_pos h] by simp
next
  show "create_material_from_textures unique name (h\<lparr>selected := filter is_texture (selected h)\<rparr>) =
     apsnd (\<lambda>h'. h'\<lparr>selected := filter is_texture (selected h)\<rparr>)
       (create_material_from_textures unique name h)"
    by (rule create_material_from_textures_selected)
qed

theorem non_textures_are_skipped_witness:
  "\<not> is_texture example_sound \<and>
   for_selected (Some example_material) [example_sound, example_normal] 250 example_host_created =
     for_selected (Some example_material) [example_normal] 250 example_host_created \<and>
   for_selected (Some example_material) [example_sound] 0 example_host_created =
     (Inr (), example_host_created)"
proof -
  have s: "\<not> is_texture example_sound"
    by (simp add: is_texture_def example_sound_def)
  note inst = non_textures_are_skipped
    [of example_sound "Some example_material" "[example_normal]" 250 example_host_created
        "[example_sound]" example_unique "''/Game/M_Wood''"]
  note inst0 = non_textures_are_skipped
    [of example_sound "Some example_material" "[example_normal]" 0 example_host_created
        "[example_sound]" example_unique "''/Game/M_Wood''"]
  from inst s have 1: "for_selected (Some example_material) [example_sound, example_normal] 250
      example_host_created =
     for_selected (Some example_material) [example_normal] 250 example_host_created"
    by blast
  have "\<forall>a \<in> set [example_sound]. \<not> is_texture a" using s by simp
  with inst0 have 2: "for_selected (Some example_material) [example_sound] 0 example_host_created =
     (Inr (), example_host_created)"
    by blast
  from s 1 2 show ?thesis by blast
qed

text \<open>
  Claim C7: once the material has been found or created and the loop over the selection has
  ended normally, \<^verbatim>\<open>create_material_from_textures\<close> makes exactly three more requests, in
  this order: recompile the material, save the asset at the material's path, open an editor
  for the material.
\<close>

theorem finishing_requests:
  "create_empty_material unique name h = (Inr material, h1) \<Longrightarrow>
   for_selected material (selected h1) 0 h1 = (Inr u, h2) \<Longrightarrow>
   \<exists>a. material = Some a \<and>
     create_material_from_textures unique name h =
       (Inr (),
        h2\<lparr>calls := calls h2 @
             [RecompileMaterial material, SaveAsset (path_name a) True,
              OpenEditorForAssets [material]]\<rparr>)"
proof -
  assume c: "create_empty_material unique name h = (Inr material, h1)"
    and l: "for_selected material (selected h1) 0 h1 = (Inr u, h2)"
  from create_empty_material_not_None [OF c] obtain a where a: "material = Some a" ..
  have "create_material_from_textures unique name h =
       (Inr (),
        h2\<lparr>calls := calls h2 @
             [RecompileMaterial material, SaveAsset (path_name a) True,
              OpenEditorForAssets [material]]\<rparr>)"
    using l by (simp add: create_material_from_textures_def c a request_def)
  with a show ?thesis by blast
qed

theorem finishing_requests_witness:
  "create_empty_material example_unique ''/Game/M_Wood'' example_host =
     (Inr (Some example_material), example_host_created) \<and>
   for_selected (Some example_material) (selected example_host_created) 0 example_host_created =
     (Inr (), example_host_applied) \<and>
   create_material_from_textures example_unique ''/Game/M_Wood'' example_host =
     (Inr (),
      example_host_applied\<lparr>calls := calls example_host_applied @
        [RecompileMaterial (Some example_material), SaveAsset ''/Game/M_Wood'' True,
         OpenEditorForAssets [Some example_material]]\<rparr>)"
proof -
  from finishing_requests [OF example_created example_applied]
  obtain a where a: "Some example_material = Some a"
    and f: "create_material_from_textures example_unique ''/Game/M_Wood'' example_host =
       (Inr (),
        example_host_applied\<lparr>calls := calls example_host_applied @
             [RecompileMaterial (Some example_material), SaveAsset (path_name a) True,
              OpenEditorForAssets [Some example_material]]\<rparr>)"
    by blast
  from a have "path_name a = ''/Game/M_Wood''"
    by (auto simp add: example_material_def)
  with f example_created example_applied show ?thesis by simp
qed

end
